theory Spec2Isabelle
  imports Main
begin

section \<open>Python string operations used by the sources\<close>

text \<open>
  Strings of the program are modelled as \<^typ>\<open>string\<close>. The functions below are the
  Python string operations that \<^verbatim>\<open>shell.py\<close> and \<^verbatim>\<open>nodes/openswitch.py\<close> apply:
  \<^verbatim>\<open>sep.join(xs)\<close>, \<^verbatim>\<open>'{}'.format(n)\<close> on an integer, \<^verbatim>\<open>'{}'.format(x)\<close> on a value
  that may be \<^verbatim>\<open>None\<close>, \<^verbatim>\<open>a in b\<close> on two strings, \<^verbatim>\<open>s.rfind(c)\<close>, the slice
  \<^verbatim>\<open>s[i:]\<close> and \<^verbatim>\<open>b.decode(encoding)\<close>.
\<close>

fun join :: "string \<Rightarrow> string list \<Rightarrow> string" where
  "join sep [] = []"
| "join sep [x] = x"
| "join sep (x # y # ys) = x @ sep @ join sep (y # ys)"

fun str_nat :: "nat \<Rightarrow> string" where
  "str_nat n =
     (if n < 10 then [''0123456789'' ! n]
      else str_nat (n div 10) @ [''0123456789'' ! (n mod 10)])"

definition str_int :: "int \<Rightarrow> string" where
  "str_int i = (if i < 0 then ''-'' @ str_nat (nat (- i)) else str_nat (nat i))"

definition fmt_opt :: "string option \<Rightarrow> string" where
  "fmt_opt x = (case x of None \<Rightarrow> ''None'' | Some s \<Rightarrow> s)"

fun starts_with :: "string \<Rightarrow> string \<Rightarrow> bool" where
  "starts_with [] t = True"
| "starts_with (c # cs) [] = False"
| "starts_with (c # cs) (d # ds) = (c = d \<and> starts_with cs ds)"

fun str_in :: "string \<Rightarrow> string \<Rightarrow> bool" where
  "str_in s [] = (s = [])"
| "str_in s (c # cs) = (starts_with s (c # cs) \<or> str_in s cs)"

text \<open>\<^verbatim>\<open>s.rfind(c)\<close>: the highest index of \<open>c\<close> in \<open>s\<close>, or \<open>-1\<close>.\<close>

fun rfind :: "string \<Rightarrow> char \<Rightarrow> int" where
  "rfind [] c = - 1"
| "rfind (x # xs) c =
     (let r = rfind xs c in
      if r \<noteq> - 1 then r + 1 else if x = c then 0 else - 1)"

text \<open>\<^verbatim>\<open>s[i:]\<close> for an index \<open>i\<close>; a negative index counts from the end.\<close>

definition slice_from :: "string \<Rightarrow> int \<Rightarrow> string" where
  "slice_from s i =
     (if i < 0 then drop (nat (int (length s) + i)) s else drop (nat i) s)"

text \<open>
  \<^verbatim>\<open>b.decode('utf-8')\<close> with the default strict error handling. A Python \<^verbatim>\<open>str\<close> is
  represented by its UTF-8 encoding, so decoding either fails (\<^verbatim>\<open>UnicodeDecodeError\<close>)
  or returns the bytes as they are. It succeeds exactly on well-formed UTF-8: no stray
  continuation byte, no truncated sequence, no overlong form, no surrogate and nothing
  above U+10FFFF. The carriage return is a single byte that is part of no longer
  sequence, so \<^verbatim>\<open>rfind\<close>, slicing and comparison on the representation agree with the
  same operations on the \<^verbatim>\<open>str\<close>. The encoding is the \<^verbatim>\<open>_encoding\<close> of the shell:
  UTF-8, the default of \<^verbatim>\<open>PExpectShell\<close>, which the node does not change.
\<close>

definition byte :: "char \<Rightarrow> nat" where
  "byte c = of_char c"

definition in_range :: "nat \<Rightarrow> nat \<Rightarrow> char \<Rightarrow> bool" where
  "in_range lo hi c = (lo \<le> byte c \<and> byte c \<le> hi)"

definition second_byte :: "char \<Rightarrow> char \<Rightarrow> bool" where
  "second_byte lead c =
     (if byte lead = 0xE0 then in_range 0xA0 0xBF c
      else if byte lead = 0xED then in_range 0x80 0x9F c
      else if byte lead = 0xF0 then in_range 0x90 0xBF c
      else if byte lead = 0xF4 then in_range 0x80 0x8F c
      else in_range 0x80 0xBF c)"

fun well_formed_utf8 :: "string \<Rightarrow> bool" where
  "well_formed_utf8 [] = True"
| "well_formed_utf8 [a] = in_range 0x00 0x7F a"
| "well_formed_utf8 [a, b] =
     (if in_range 0x00 0x7F a then well_formed_utf8 [b]
      else in_range 0xC2 0xDF a \<and> in_range 0x80 0xBF b)"
| "well_formed_utf8 [a, b, c] =
     (if in_range 0x00 0x7F a then well_formed_utf8 [b, c]
      else if in_range 0xC2 0xDF a then in_range 0x80 0xBF b \<and> well_formed_utf8 [c]
      else in_range 0xE0 0xEF a \<and> second_byte a b \<and> in_range 0x80 0xBF c)"
| "well_formed_utf8 (a # b # c # d # rest) =
     (if in_range 0x00 0x7F a then well_formed_utf8 (b # c # d # rest)
      else if in_range 0xC2 0xDF a then in_range 0x80 0xBF b \<and> well_formed_utf8 (c # d # rest)
      else if in_range 0xE0 0xEF a
        then second_byte a b \<and> in_range 0x80 0xBF c \<and> well_formed_utf8 (d # rest)
      else in_range 0xF0 0xF4 a \<and> second_byte a b \<and> in_range 0x80 0xBF c
           \<and> in_range 0x80 0xBF d \<and> well_formed_utf8 rest)"

definition decode :: "string \<Rightarrow> string option" where
  "decode b = (if well_formed_utf8 b then Some b else None)"

section \<open>Transport command builder (\<^verbatim>\<open>shell.py\<close>, \<^verbatim>\<open>SshMixin\<close> and \<^verbatim>\<open>TelnetMixin\<close>)\<close>

text \<open>
  The fields that \<^verbatim>\<open>SshMixin.__init__\<close> stores. \<open>identity_file\<close> is \<open>None\<close> when key
  based authentication is not used; \<open>ssh_options\<close> is the tuple of \<^verbatim>\<open>-o\<close> options.
\<close>

record ssh_params =
  ssh_user :: string
  ssh_hostname :: string
  ssh_port :: int
  ssh_options :: "string list"
  identity_file :: "string option"

record telnet_params =
  telnet_hostname :: string
  telnet_port :: int

text \<open>Python truthiness of a value that is \<open>None\<close> or a string.\<close>

definition truthy :: "string option \<Rightarrow> bool" where
  "truthy x = (case x of None \<Rightarrow> False | Some s \<Rightarrow> s \<noteq> [])"

text \<open>
  \<^verbatim>\<open>SshMixin._get_connect_command\<close> (lines 210-232): the local \<open>options\<close> starts empty,
  is set from the option tuple when that is not empty, and is then prefixed by the
  identity file flag when an identity file is set.
\<close>

definition ssh_get_connect_command :: "ssh_params \<Rightarrow> string" where
  "ssh_get_connect_command p =
     (let options0 = [];
          options1 = (if ssh_options p \<noteq> []
                      then '' -o '' @ join '' -o '' (ssh_options p) else options0);
          options2 = (if truthy (identity_file p)
                      then '' -i '' @ fmt_opt (identity_file p) @ options1 else options1)
      in ''ssh '' @ ssh_user p @ ''@'' @ ssh_hostname p @ '' -p '' @ str_int (ssh_port p)
           @ options2)"

text \<open>\<^verbatim>\<open>TelnetMixin._get_connect_command\<close> (lines 259-272).\<close>

definition telnet_get_connect_command :: "telnet_params \<Rightarrow> string" where
  "telnet_get_connect_command p =
     ''telnet '' @ telnet_hostname p @ '' '' @ str_int (telnet_port p)"

text \<open>The two flag groups of the SSH form, as the claim names them.\<close>

definition identity_flag :: "ssh_params \<Rightarrow> string" where
  "identity_flag p = (if truthy (identity_file p) then '' -i '' @ fmt_opt (identity_file p) else [])"

definition option_flags :: "ssh_params \<Rightarrow> string" where
  "option_flags p = concat (map (\<lambda>x. '' -o '' @ x) (ssh_options p))"

section \<open>Channels, effects and exceptions\<close>

text \<open>
  The process and channel layer (pexpect, and \<^verbatim>\<open>PExpectShell\<close> of the topology
  framework) is outside the repository. It enters the model in two ways. What the
  program does to a channel is appended to a trace of actions. What a channel answers is
  read from a script: the list of the replies that the outside world gives, in the order
  in which the program asks for them. A reply either matches (with the index of the
  pattern that matched and the output received) or fails (pexpect raises \<^verbatim>\<open>TIMEOUT\<close> or
  \<^verbatim>\<open>EOF\<close>; the output received so far stays readable as \<^verbatim>\<open>spawn.before\<close>). The output
  of a reply is the bytes received; where the sources decode \<^verbatim>\<open>spawn.before\<close>
  themselves, the model applies \<open>decode\<close>. The reply to a shell call is what
  \<^verbatim>\<open>PExpectShell\<close> returns as the response.

  A run that asks for a reply when the script is used up has observed all that the
  script describes and is still waiting: its result is \<open>Waiting\<close>. Calls to \<^verbatim>\<open>print\<close>
  are not recorded.
\<close>

datatype shell = Serial | Vtysh

datatype action =
    Connect shell
  | Disconnect shell
  | Command shell string bool "string list" nat
  | Expect "string list" nat
  | Send string
  | Sendline "string option"
  | Close
  | Sleep nat
  | Call string

text \<open>
  \<open>Command sh text newline matches timeout\<close> is \<^verbatim>\<open>sh.send_command(text, matches,
  newline, timeout)\<close>, with the prompt and the timeout of the shell filled in where the
  source passes none; \<open>Expect\<close>, \<open>Send\<close>, \<open>Sendline\<close> and \<open>Close\<close> are the
  methods of the pexpect \<^verbatim>\<open>spawn\<close> object; \<open>Call\<close> is \<^verbatim>\<open>subprocess.call\<close>.
\<close>

datatype reply = is_Match: Match nat (received: string) | is_Fail: Fail (received: string)

text \<open>
  The assertions of \<^verbatim>\<open>nodes/openswitch.py\<close>, by their messages: line 265 (``Timeout
  occured while downloading image''), line 275 (``Failed to download image'', with the
  output received), line 281 (``Failed to burning image'').
\<close>

datatype assertion = Download_timeout | Download_failed string | Burning_failed

datatype exn =
    NameError string
  | TypeError
  | AttributeError
  | AssertionError assertion
  | ChannelError
  | UnicodeDecodeError
  | AlreadyDisconnectedError

datatype 'a result = Ret 'a | Exc exn | Waiting

text \<open>
  The state: the module level list \<^verbatim>\<open>image_load_status\<close>, the trace, the script, the
  output of the last channel interaction, the mutable attributes \<^verbatim>\<open>_prompt\<close> and
  \<^verbatim>\<open>_timeout\<close> of the serial shell and of the vtysh shell, whether the serial channel is
  alive, the exit status that an external command returns, and what \<^verbatim>\<open>isalive()\<close>
  answers for the process of the vtysh shell after a given trace.
\<close>

record state =
  image_load_status :: "string list"
  trace :: "action list"
  script :: "reply list"
  before :: string
  serial_prompt :: string
  serial_timeout :: nat
  vtysh_prompt :: string
  vtysh_timeout :: nat
  alive :: bool
  exit_status :: "string \<Rightarrow> int"
  vtysh_isalive :: "action list \<Rightarrow> bool"

type_synonym 'a prog = "state \<Rightarrow> 'a result \<times> state"

definition ret :: "'a \<Rightarrow> 'a prog" where
  "ret a = (\<lambda>s. (Ret a, s))"

definition raise :: "exn \<Rightarrow> 'a prog" where
  "raise e = (\<lambda>s. (Exc e, s))"

definition pbind :: "'a prog \<Rightarrow> ('a \<Rightarrow> 'b prog) \<Rightarrow> 'b prog" where
  "pbind m f = (\<lambda>s. case m s of
       (Ret a, s1) \<Rightarrow> f a s1
     | (Exc e, s1) \<Rightarrow> (Exc e, s1)
     | (Waiting, s1) \<Rightarrow> (Waiting, s1))"

definition seq :: "'a prog \<Rightarrow> 'b prog \<Rightarrow> 'b prog" where
  "seq m k = pbind m (\<lambda>_. k)"

fun steps :: "unit prog list \<Rightarrow> unit prog" where
  "steps [] = ret ()"
| "steps (m # ms) = seq m (steps ms)"

text \<open>\<^verbatim>\<open>try: m  except: h\<close>, with the bare \<^verbatim>\<open>except\<close> of the sources.\<close>

definition try_except :: "'a prog \<Rightarrow> 'a prog \<Rightarrow> 'a prog" where
  "try_except m h = (\<lambda>s. case m s of
       (Exc e, s1) \<Rightarrow> h s1
     | (Ret a, s1) \<Rightarrow> (Ret a, s1)
     | (Waiting, s1) \<Rightarrow> (Waiting, s1))"

definition emit :: "action \<Rightarrow> unit prog" where
  "emit a = (\<lambda>s. (Ret (), s\<lparr>trace := trace s @ [a]\<rparr>))"

definition receive :: "nat prog" where
  "receive = (\<lambda>s. case script s of
       [] \<Rightarrow> (Waiting, s)
     | Match i b # rest \<Rightarrow> (Ret i, s\<lparr>script := rest, before := b\<rparr>)
     | Fail b # rest \<Rightarrow> (Exc ChannelError, s\<lparr>script := rest, before := b\<rparr>))"

definition sleep :: "nat \<Rightarrow> unit prog" where
  "sleep n = emit (Sleep n)"

definition spawn_expect :: "string list \<Rightarrow> nat \<Rightarrow> nat prog" where
  "spawn_expect patterns timeout = seq (emit (Expect patterns timeout)) receive"

definition spawn_send :: "string \<Rightarrow> unit prog" where
  "spawn_send text = emit (Send text)"

text \<open>
  \<^verbatim>\<open>spawn.sendline(s)\<close> encodes its argument before it writes anything: with \<open>None\<close>
  as argument that raises \<^verbatim>\<open>AttributeError\<close> and nothing is sent.
\<close>

definition spawn_sendline :: "string option \<Rightarrow> unit prog" where
  "spawn_sendline text =
     (case text of
        None \<Rightarrow> raise AttributeError
      | Some line \<Rightarrow> emit (Sendline (Some line)))"

definition spawn_close :: "unit prog" where
  "spawn_close = (\<lambda>s. (Ret (), s\<lparr>trace := trace s @ [Close], alive := False\<rparr>))"

text \<open>
  The methods inherited from \<^verbatim>\<open>PExpectShell\<close>: \<^verbatim>\<open>send_command\<close> sends the text and
  waits for one of the patterns, \<^verbatim>\<open>get_response\<close> reads the output, \<^verbatim>\<open>__call__\<close> does
  both, \<^verbatim>\<open>connect\<close> opens the channel and waits for its prompts: each is one
  interaction with the outside world. \<^verbatim>\<open>disconnect\<close> waits for nothing: it raises
  \<^verbatim>\<open>AlreadyDisconnectedError\<close> when the process is not alive and closes the channel
  otherwise.
\<close>

definition prompt_of :: "shell \<Rightarrow> state \<Rightarrow> string" where
  "prompt_of sh s = (case sh of Serial \<Rightarrow> serial_prompt s | Vtysh \<Rightarrow> vtysh_prompt s)"

definition timeout_of :: "shell \<Rightarrow> state \<Rightarrow> nat" where
  "timeout_of sh s = (case sh of Serial \<Rightarrow> serial_timeout s | Vtysh \<Rightarrow> vtysh_timeout s)"

definition send_command_matches :: "shell \<Rightarrow> string \<Rightarrow> string list \<Rightarrow> nat \<Rightarrow> bool \<Rightarrow> nat prog" where
  "send_command_matches sh text matches timeout newline =
     seq (emit (Command sh text newline matches timeout)) receive"

definition send_command :: "shell \<Rightarrow> string \<Rightarrow> bool \<Rightarrow> nat prog" where
  "send_command sh text newline =
     (\<lambda>s. send_command_matches sh text [prompt_of sh s] (timeout_of sh s) newline s)"

definition get_response :: "string prog" where
  "get_response = (\<lambda>s. (Ret (before s), s))"

definition shell_call :: "shell \<Rightarrow> string \<Rightarrow> string prog" where
  "shell_call sh text = seq (send_command sh text True) get_response"

definition connect :: "shell \<Rightarrow> unit prog" where
  "connect sh = seq (emit (Connect sh)) (seq receive (ret ()))"

definition disconnect :: "shell \<Rightarrow> unit prog" where
  "disconnect sh =
     (\<lambda>s. if \<not> vtysh_isalive s (trace s) then raise AlreadyDisconnectedError s
          else emit (Disconnect sh) s)"

definition subprocess_call :: "string \<Rightarrow> int prog" where
  "subprocess_call c = (\<lambda>s. (Ret (exit_status s c), s\<lparr>trace := trace s @ [Call c]\<rparr>))"

definition ignore :: "'a prog \<Rightarrow> unit prog" where
  "ignore m = seq m (ret ())"

definition set_serial_prompt :: "string \<Rightarrow> unit prog" where
  "set_serial_prompt p = (\<lambda>s. (Ret (), s\<lparr>serial_prompt := p\<rparr>))"

definition set_serial_timeout :: "nat \<Rightarrow> unit prog" where
  "set_serial_timeout t = (\<lambda>s. (Ret (), s\<lparr>serial_timeout := t\<rparr>))"

definition get_serial_timeout :: "nat prog" where
  "get_serial_timeout = (\<lambda>s. (Ret (serial_timeout s), s))"

definition set_vtysh_prompt :: "string \<Rightarrow> unit prog" where
  "set_vtysh_prompt p = (\<lambda>s. (Ret (), s\<lparr>vtysh_prompt := p\<rparr>))"

definition get_vtysh_prompt :: "string prog" where
  "get_vtysh_prompt = (\<lambda>s. (Ret (vtysh_prompt s), s))"

text \<open>Characters that the sources write with escapes.\<close>

definition bs :: char where "bs = CHR 0x5C"
definition CR :: char where "CR = CHR 0x0D"
definition LF :: char where "LF = CHR 0x0A"
definition ESC :: char where "ESC = CHR 0x1B"

definition enter :: string where "enter = [LF, CR]"
definition arrow_down :: string where "arrow_down = ESC # ''[B''"

section \<open>The handshake engine (\<^verbatim>\<open>shell.py\<close>, \<^verbatim>\<open>ConnectPExpectShell._setup_shell\<close>)\<close>

record handshake_params =
  user_match :: string
  initial_prompt :: string
  password_match :: string
  hs_timeout :: nat
  connect_user :: "string option"
  connect_password :: "string option"
  connect_initial_command :: "string option"

text \<open>Lines 59-80: the race of three patterns, performed when a user was declared.\<close>

definition handshake_user :: "handshake_params \<Rightarrow> unit prog" where
  "handshake_user p =
     (case connect_user p of
        None \<Rightarrow> ret ()
      | Some user \<Rightarrow>
          pbind (spawn_expect [user_match p, initial_prompt p, password_match p] (hs_timeout p))
            (\<lambda>index.
               if 0 = index then spawn_sendline (Some user)
               else if 1 = index then spawn_send enter
               else if 2 = index then spawn_sendline (connect_password p)
               else ret ()))"

text \<open>Lines 83-91: the race of two patterns, performed when a password was declared.\<close>

definition handshake_password :: "handshake_params \<Rightarrow> unit prog" where
  "handshake_password p =
     (case connect_password p of
        None \<Rightarrow> ret ()
      | Some password \<Rightarrow>
          pbind (spawn_expect [password_match p, initial_prompt p] (hs_timeout p))
            (\<lambda>index.
               if 0 = index then spawn_sendline (Some password)
               else spawn_send enter))"

text \<open>Lines 97-101: the initial command.\<close>

definition handshake_initial_command :: "handshake_params \<Rightarrow> unit prog" where
  "handshake_initial_command p =
     (case connect_initial_command p of
        None \<Rightarrow> ret ()
      | Some command \<Rightarrow>
          seq (spawn_expect [initial_prompt p] (hs_timeout p))
              (spawn_sendline (Some command)))"

text \<open>
  \<^verbatim>\<open>_setup_shell\<close> (lines 53-101). The two hooks \<^verbatim>\<open>_pre_setup_shell\<close> and
  \<^verbatim>\<open>_post_setup_shell\<close> are methods that subclasses override; they are parameters here.
  In \<^verbatim>\<open>ConnectPExpectShell\<close> both do nothing.
\<close>

definition setup_shell :: "unit prog \<Rightarrow> unit prog \<Rightarrow> handshake_params \<Rightarrow> unit prog" where
  "setup_shell pre_setup_shell post_setup_shell p =
     steps [pre_setup_shell, handshake_user p, handshake_password p, post_setup_shell,
            handshake_initial_command p]"

definition no_setup :: "unit prog" where
  "no_setup = ret ()"

section \<open>The serial shell (\<^verbatim>\<open>shell.py\<close>, \<^verbatim>\<open>OpenswitchSerialShell\<close>)\<close>

text \<open>
  The attributes of the \<^verbatim>\<open>serial\<close> block of a node, as \<^verbatim>\<open>OpenswitchSerialShell.__init__\<close>
  reads them (lines 342-356).
\<close>

record serial_attrs =
  serial_command :: string
  serial_user :: "string option"
  serial_password :: "string option"
  pre_connect_timeout :: nat
  closing_commands :: "string list"

definition serial_login_prompt :: string where
  "serial_login_prompt = ''[lL]ogin: ''"

definition serial_onie_prompt :: string where
  "serial_onie_prompt = ''ONIE:/ # ''"

definition serial_shell_prompt :: "serial_attrs \<Rightarrow> string" where
  "serial_shell_prompt sa = fmt_opt (serial_user sa) @ ''@.+:~# ''"

text \<open>
  \<^verbatim>\<open>_close_serial_connection\<close> (lines 369-371). The body of the loop reads the name
  \<^verbatim>\<open>spawn\<close>, which is neither a local of the method nor a global of the module: reading
  it raises \<^verbatim>\<open>NameError\<close> before \<^verbatim>\<open>send\<close> is called.
\<close>

fun close_serial_connection :: "string list \<Rightarrow> unit prog" where
  "close_serial_connection [] = ret ()"
| "close_serial_connection (command # rest) =
     seq (raise (NameError ''spawn'') :: unit prog)
       (seq (spawn_send command) (close_serial_connection rest))"

text \<open>
  \<^verbatim>\<open>disconnect\<close> (lines 358-367). \<^verbatim>\<open>AlreadyDisconnectedError\<close> is not imported by the
  module, so the branch that would raise it raises \<^verbatim>\<open>NameError\<close> as well.
\<close>

definition serial_disconnect :: "serial_attrs \<Rightarrow> unit prog" where
  "serial_disconnect sa =
     (\<lambda>s. if \<not> alive s then raise (NameError ''AlreadyDisconnectedError'') s
          else seq (close_serial_connection (closing_commands sa)) spawn_close s)"

section \<open>The provisioning workflow (\<^verbatim>\<open>nodes/openswitch.py\<close>, \<^verbatim>\<open>OpenswitchNode\<close>)\<close>

record image_attrs =
  image_path :: string
  image_server_ip :: string
  image_server_user :: "string option"
  image_server_password :: "string option"

record node =
  node_identifier :: string
  IP :: string
  bootup_timeout :: nat
  sys_init_after_bootup_timeout :: nat
  bootloader_bootup_timeout :: nat
  image_attrs :: "image_attrs option"
  serial_attrs :: "serial_attrs option"
  reboot_command :: "string option"

text \<open>\<^verbatim>\<open>_load_image_attrs\<close> (lines 335-346): an empty server password counts as none.\<close>

definition load_image_attrs :: "image_attrs \<Rightarrow> image_attrs" where
  "load_image_attrs ia =
     (if image_server_password ia = Some [] then ia\<lparr>image_server_password := None\<rparr> else ia)"

definition serial_boot_prompt :: string where
  "serial_boot_prompt = ''OpenSwitch ''"

definition serial_boot_onie_prompt :: string where
  "serial_boot_onie_prompt = ''ONIE''"

definition serial_grub_prompt :: string where
  "serial_grub_prompt = ''(OpenSwitch Primary Image|OpenSwitch Secondary Image)''"

definition activate_console_prompt :: string where
  "activate_console_prompt = ''Please press Enter to activate this console.''"

definition host_key_prompt :: string where
  "host_key_prompt = ''Do you want to continue connecting'' @ [bs] @ ''? '' @ [bs] @ ''(y''
     @ [bs] @ ''/n'' @ [bs] @ '') ''"

definition scp_password_prompt :: string where
  "scp_password_prompt = ''.+password: ''"

definition restart_prompt :: string where
  "restart_prompt = ''[rR]estart''"

definition erase_confirm_prompt :: string where
  "erase_confirm_prompt = ''Do you want to continue '' @ [bs] @ ''[y'' @ [bs] @ ''/n'' @ [bs] @ '']''"

definition success_marker :: string where
  "success_marker = ''Installation finished. No error reported.''"

definition no_saved_configuration :: string where
  "no_saved_configuration = ''No saved configuration exists''"

text \<open>
  \<^verbatim>\<open>_reboot_switch\<close> (lines 325-330). The first statement under the test calls
  \<^verbatim>\<open>printf\<close>, a name that the module does not define: it raises \<^verbatim>\<open>NameError\<close>. The
  statements after it are kept as the source has them: the external call, the assertion
  on its exit status (whose message reads the missing attribute \<^verbatim>\<open>self.__i\<close>, so a
  failing assertion raises \<^verbatim>\<open>AttributeError\<close>), and the sleep.
\<close>

definition reboot_switch :: "node \<Rightarrow> unit prog" where
  "reboot_switch n =
     (case reboot_command n of
        None \<Rightarrow> ret ()
      | Some c \<Rightarrow>
          seq (raise (NameError ''printf'') :: unit prog)
            (pbind (subprocess_call c)
               (\<lambda>r. seq (if 0 = r then ret () else raise AttributeError)
                         (sleep (bootup_timeout n)))))"

text \<open>
  Lines 198-208: the serial shell is built from the \<^verbatim>\<open>serial\<close> block
  (\<^verbatim>\<open>params.update(None)\<close> raises \<^verbatim>\<open>TypeError\<close> when the block is missing), its prompt
  is the shell prompt of its user, and it is connected, with one more attempt after
  \<^verbatim>\<open>_reboot_switch\<close> when the first attempt raises. The timeout of the new shell is
  the default of \<^verbatim>\<open>PExpectShell\<close>: it is the \<open>serial_timeout\<close> of the state in which the
  workflow starts.
\<close>

definition establish_serial :: "node \<Rightarrow> unit prog" where
  "establish_serial n =
     (case serial_attrs n of
        None \<Rightarrow> raise TypeError
      | Some sa \<Rightarrow>
          seq (set_serial_prompt (serial_shell_prompt sa))
            (try_except (connect Serial)
               (seq (reboot_switch n) (connect Serial))))"

text \<open>\<^verbatim>\<open>_erase_startup_config\<close> (lines 299-309).\<close>

definition erase_startup_config :: "unit prog" where
  "erase_startup_config =
     seq (connect Vtysh)
       (pbind get_vtysh_prompt
          (\<lambda>prev_prompt. steps
             [set_vtysh_prompt erase_confirm_prompt,
              ignore (shell_call Vtysh ''erase startup-config''),
              set_vtysh_prompt prev_prompt,
              ignore (shell_call Vtysh ''y''),
              disconnect Vtysh]))"

text \<open>\<^verbatim>\<open>serial.send_command(text, newline=False)\<close>: a key press.\<close>

definition press :: "string \<Rightarrow> unit prog" where
  "press text = ignore (send_command Serial text False)"

text \<open>Lines 212-241: reboot into the boot loader, choose ONIE, choose ONIE rescue.\<close>

definition reboot_to_rescue :: "node \<Rightarrow> unit prog" where
  "reboot_to_rescue n =
     seq (set_serial_prompt serial_grub_prompt)
       (pbind get_serial_timeout
          (\<lambda>temp. steps
             [if 0 \<noteq> bootloader_bootup_timeout n
              then set_serial_timeout (bootloader_bootup_timeout n) else ret (),
              ignore (shell_call Serial ''reboot''),
              set_serial_timeout temp,
              set_serial_prompt serial_boot_prompt,
              sleep 1,
              press arrow_down,
              press arrow_down,
              press arrow_down,
              sleep 1,
              set_serial_prompt serial_boot_onie_prompt,
              press enter,
              sleep 1,
              press arrow_down,
              sleep 1,
              set_serial_prompt activate_console_prompt,
              set_serial_timeout 180,
              press enter,
              set_serial_timeout temp,
              set_serial_prompt serial_onie_prompt,
              press enter]))"

text \<open>
  The trailing fragment of line 264: \<^verbatim>\<open>message[message.rfind('\r') + 1 :]\<close>.
\<close>

definition trailing :: "string \<Rightarrow> string" where
  "trailing message = slice_from message (rfind message CR + 1)"

lemma spawn_expect_consumes:
  "spawn_expect ps t s = (r, s1) \<Longrightarrow> r \<noteq> Waiting \<Longrightarrow>
   length (script s1) < length (script s)"
  by (auto simp: spawn_expect_def seq_def pbind_def emit_def receive_def
           split: list.splits reply.splits)

text \<open>
  The wait loop of lines 258-272, entered with the local \<open>out\<close>. It waits for the ONIE
  prompt with the timeout of the serial shell. When the wait matches, the output is
  decoded (line 261) and the loop is left with it as \<open>message\<close>. When the wait raises,
  or when the decoding of line 261 raises, the bare \<^verbatim>\<open>except\<close> takes over: the output is
  decoded (line 263; a failure there leaves the loop with \<^verbatim>\<open>UnicodeDecodeError\<close>), its
  trailing fragment is compared with \<open>out\<close>, the assertion of line 265 fails when they
  are equal, and the loop goes on with the fragment as the new \<open>out\<close> when they differ.
\<close>

function download_loop :: "string \<Rightarrow> state \<Rightarrow> string result \<times> state" where
  "download_loop out s =
     (case spawn_expect [serial_onie_prompt] (serial_timeout s) s of
        (Ret i, s1) \<Rightarrow>
          (case decode (before s1) of
             Some message \<Rightarrow> (Ret message, s1)
           | None \<Rightarrow>
               (case decode (before s1) of
                  None \<Rightarrow> (Exc UnicodeDecodeError, s1)
                | Some message \<Rightarrow>
                    (let prev_out = trailing message
                     in if prev_out \<noteq> out then download_loop prev_out s1
                        else (Exc (AssertionError Download_timeout), s1))))
      | (Exc e, s1) \<Rightarrow>
          (case decode (before s1) of
             None \<Rightarrow> (Exc UnicodeDecodeError, s1)
           | Some message \<Rightarrow>
               (let prev_out = trailing message
                in if prev_out \<noteq> out then download_loop prev_out s1
                   else (Exc (AssertionError Download_timeout), s1)))
      | (Waiting, s1) \<Rightarrow> (Waiting, s1))"
  by pat_completeness auto
termination
  by (relation "measure (\<lambda>(out, s). length (script s))")
     (auto dest!: spawn_expect_consumes [OF sym])

text \<open>
  Lines 242-276: start the copy, accept the host key, send the password of the image
  server, wait for the download with \<open>out = ''\<close>, and check the exit status.
\<close>

definition download_image :: "node \<Rightarrow> image_attrs \<Rightarrow> unit prog" where
  "download_image n ia =
     steps
       [set_serial_prompt host_key_prompt,
        ignore (shell_call Serial
          (''scp '' @ fmt_opt (image_server_user ia) @ ''@'' @ image_server_ip ia @ '':''
             @ image_path ia @ '' ./'')),
        set_serial_prompt scp_password_prompt,
        ignore (shell_call Serial ''y''),
        spawn_sendline (image_server_password ia),
        pbind (download_loop [])
          (\<lambda>message. seq (set_serial_prompt serial_onie_prompt)
             (pbind (shell_call Serial ''echo $?'')
                (\<lambda>rc. if ''0'' = rc then ret ()
                      else raise (AssertionError (Download_failed message)))))]"

text \<open>Lines 277-283: run the installer and look for the success marker.\<close>

definition file_name :: "image_attrs \<Rightarrow> string" where
  "file_name ia = slice_from (image_path ia) (rfind (image_path ia) CHR ''/'' + 1)"

definition run_installer :: "image_attrs \<Rightarrow> unit prog" where
  "run_installer ia =
     seq (set_serial_prompt restart_prompt)
       (pbind (shell_call Serial (''sh '' @ file_name ia))
          (\<lambda>out. if str_in success_marker out then ret ()
                 else raise (AssertionError Burning_failed)))"

text \<open>Lines 284-292: let the switch boot the installed image.\<close>

definition reboot_to_production :: "node \<Rightarrow> unit prog" where
  "reboot_to_production n =
     pbind get_serial_timeout
       (\<lambda>temp. steps
          [if 0 \<noteq> bootloader_bootup_timeout n
           then set_serial_timeout (bootloader_bootup_timeout n) else ret (),
           set_serial_prompt serial_grub_prompt,
           ignore (shell_call Serial []),
           set_serial_timeout temp,
           set_serial_prompt serial_login_prompt,
           press enter])"

text \<open>
  \<^verbatim>\<open>_create_startup_config\<close> (lines 311-323): the loop on \<open>seconds\<close>, then the
  disconnect.
\<close>

function create_loop :: "nat \<Rightarrow> unit prog" where
  "create_loop seconds =
     (if seconds < 15 then
        seq (shell_call Vtysh ''copy running-config startup-config'')
          (pbind (shell_call Vtysh ''show startup-config'')
             (\<lambda>out. if \<not> str_in no_saved_configuration out then ret ()
                    else seq (sleep 1) (create_loop (seconds + 1))))
      else ret ())"
  by pat_completeness auto
termination
  by (relation "measure (\<lambda>seconds. 15 - seconds)") auto

definition create_startup_config :: "unit prog" where
  "create_startup_config = seq (create_loop 0) (disconnect Vtysh)"

text \<open>Lines 294-297.\<close>

definition settle :: "node \<Rightarrow> unit prog" where
  "settle n = seq (sleep (sys_init_after_bootup_timeout n)) create_startup_config"

text \<open>
  The stages of \<^verbatim>\<open>_burn_image\<close> after the guard, lines 198-297, in the order of the
  source.
\<close>

definition burn_stages :: "node \<Rightarrow> image_attrs \<Rightarrow> unit prog list" where
  "burn_stages n ia =
     [establish_serial n, erase_startup_config, reboot_to_rescue n, download_image n ia,
      run_installer ia, reboot_to_production n, settle n]"

text \<open>
  \<^verbatim>\<open>_burn_image\<close> (lines 182-297): nothing is done without image attributes, nothing is
  done when the address of the node is in \<^verbatim>\<open>image_load_status\<close>; otherwise the address
  is appended to that list and the stages run.
\<close>

definition burn_image :: "node \<Rightarrow> unit prog" where
  "burn_image n =
     (\<lambda>s. case image_attrs n of
        None \<Rightarrow> (Ret (), s)
      | Some ia \<Rightarrow>
          if IP n \<in> set (image_load_status s) then (Ret (), s)
          else steps (burn_stages n (load_image_attrs ia))
                 (s\<lparr>image_load_status := image_load_status s @ [IP n]\<rparr>))"

section \<open>The stall window in the words of the specification\<close>

text \<open>
  The specification describes the download wait by its trailing fragment, ``the text
  after the last carriage return'', and by the rule: on each timeout compare the
  fragment with the previous one, fail when they are identical, otherwise record the
  new fragment and keep waiting. These two definitions follow those words; they are
  compared with \<open>trailing\<close> and \<open>download_loop\<close>, which follow the source.
\<close>

definition after_last_cr :: "string \<Rightarrow> string" where
  "after_last_cr m = rev (takeWhile (\<lambda>x. x \<noteq> CR) (rev m))"

fun stall_wait :: "string \<Rightarrow> reply list \<Rightarrow> string result" where
  "stall_wait previous [] = Waiting"
| "stall_wait previous (Match i m # rs) = Ret m"
| "stall_wait previous (Fail m # rs) =
     (if after_last_cr m = previous then Exc (AssertionError Download_timeout)
      else stall_wait (after_last_cr m) rs)"

section \<open>Vocabulary for the startup configuration\<close>

text \<open>
  \<open>no_saved_config k rs\<close>: the replies \<open>rs\<close> begin with \<open>k\<close> attempts in which both
  commands return and the output of \<^verbatim>\<open>show startup-config\<close> says that no saved
  configuration exists. \<open>attempt s\<close> is what one such attempt adds to the trace, and
  \<open>is_copy\<close> recognises the copy command.
\<close>

fun no_saved_config :: "nat \<Rightarrow> reply list \<Rightarrow> bool" where
  "no_saved_config 0 rs = True"
| "no_saved_config (Suc k) (Match i a # Match j out # rs) =
     (str_in no_saved_configuration out \<and> no_saved_config k rs)"
| "no_saved_config (Suc k) rs = False"

definition attempt :: "state \<Rightarrow> action list" where
  "attempt s =
     [Command Vtysh ''copy running-config startup-config'' True [vtysh_prompt s] (vtysh_timeout s),
      Command Vtysh ''show startup-config'' True [vtysh_prompt s] (vtysh_timeout s),
      Sleep 1]"

fun is_copy :: "action \<Rightarrow> bool" where
  "is_copy (Command sh text newline matches timeout) =
     (sh = Vtysh \<and> text = ''copy running-config startup-config'')"
| "is_copy a = False"

section \<open>Programs that leave the registry alone\<close>

text \<open>
  \<open>keeps_registry m\<close>: whatever its result, the program \<open>m\<close> ends with the list
  \<^verbatim>\<open>image_load_status\<close> with which it started.
\<close>

definition keeps_registry :: "'a prog \<Rightarrow> bool" where
  "keeps_registry m = (\<forall>s. image_load_status (snd (m s)) = image_load_status s)"

section \<open>Concrete inputs\<close>

text \<open>
  The parameters with which \<^verbatim>\<open>OpenswitchNode\<close> builds its
  shells: no identity file, and the options \<^verbatim>\<open>BatchMode=no\<close> and
  \<^verbatim>\<open>StrictHostKeyChecking=no\<close>.
\<close>

definition openswitch_ssh :: ssh_params where
  "openswitch_ssh = \<lparr>ssh_user = ''root'', ssh_hostname = ''10.0.0.5'', ssh_port = 22,
     ssh_options = [''BatchMode=no'', ''StrictHostKeyChecking=no''],
     identity_file = None\<rparr>"

text \<open>
  A state of the lab before any interaction, with the replies \<open>rs\<close> still to come. The
  timeout of 30 seconds is the default of the shells, and the process of the vtysh shell
  is alive whenever it is asked.
\<close>

definition lab_state :: "reply list \<Rightarrow> state" where
  "lab_state rs = \<lparr>image_load_status = [], trace = [], script = rs, before = [],
     serial_prompt = [], serial_timeout = 30, vtysh_prompt = ''switch# '', vtysh_timeout = 30,
     alive = True, exit_status = (\<lambda>c. 0), vtysh_isalive = (\<lambda>t. True)\<rparr>"


text \<open>A switch of the lab with an image to burn, a serial console and a reboot command.\<close>

definition lab_image :: image_attrs where
  "lab_image = \<lparr>image_path = ''/images/ops.onie'', image_server_ip = ''10.0.0.1'',
     image_server_user = Some ''build'', image_server_password = Some ''secret''\<rparr>"

definition lab_serial :: serial_attrs where
  "lab_serial = \<lparr>serial_command = ''telnet 10.0.0.2 7001'', serial_user = Some ''root'',
     serial_password = None, pre_connect_timeout = 0, closing_commands = [''exit'']\<rparr>"

definition lab_switch :: node where
  "lab_switch = \<lparr>node_identifier = ''sw1'', IP = ''10.0.0.5'', bootup_timeout = 120,
     sys_init_after_bootup_timeout = 60, bootloader_bootup_timeout = 0,
     image_attrs = Some lab_image, serial_attrs = Some lab_serial,
     reboot_command = Some ''power-cycle sw1''\<rparr>"

text \<open>A shell with a user and a password declared, and no initial command.\<close>

definition lab_login :: handshake_params where
  "lab_login = \<lparr>user_match = ''login:'', initial_prompt = ''root@.+:~# '',
     password_match = ''[pP]assword:'', hs_timeout = 30, connect_user = Some ''root'',
     connect_password = Some ''secret'', connect_initial_command = None\<rparr>"

text \<open>The first connection attempt of the serial shell fails, the second would succeed.\<close>

definition handshake_fails_once :: "reply list" where
  "handshake_fails_once = [Fail ''no prompt'', Match 0 ''login: '']"

text \<open>Fifteen attempts that all report that no saved configuration exists.\<close>

definition still_no_config :: "reply list" where
  "still_no_config =
     concat (replicate 15 [Match 0 [], Match 0 ''No saved configuration exists.''])"

text \<open>
  One attempt that reports that no saved configuration exists, then one that shows a
  configuration; a further reply follows that the loop must not ask for.
\<close>

definition found_at_second_attempt :: "reply list" where
  "found_at_second_attempt =
     [Match 0 [], Match 0 ''No saved configuration exists.'',
      Match 0 [], Match 0 ''hostname switch'',
      Match 0 ''never read'']"

text \<open>
  A burn in which everything works up to the installer: the download times out once
  with progress and then completes, its exit status is \<open>0\<close>, and the installer reports
  an error.
\<close>

definition installer_reports_error :: "reply list" where
  "installer_reports_error =
     [Match 0 ''login: '',
      Match 0 [], Match 0 [], Match 0 [],
      Match 0 [], Match 0 [], Match 0 [], Match 0 [], Match 0 [], Match 0 [], Match 0 [],
      Match 0 [],
      Match 0 [], Match 0 [],
      Fail (''ops.onie  10%'' @ [CR] @ ''ops.onie  55%''),
      Match 0 (''ops.onie  55%'' @ [CR] @ ''ops.onie 100%''),
      Match 0 ''0'',
      Match 0 ''ERROR: image checksum mismatch'',
      Match 0 []]"

section \<open>Evaluating programs\<close>

lemmas prog_defs = ret_def raise_def pbind_def seq_def try_except_def emit_def receive_def
  sleep_def spawn_expect_def spawn_send_def spawn_sendline_def
  spawn_close_def send_command_matches_def send_command_def get_response_def shell_call_def
  connect_def disconnect_def subprocess_call_def ignore_def set_serial_prompt_def
  set_serial_timeout_def get_serial_timeout_def set_vtysh_prompt_def get_vtysh_prompt_def
  prompt_of_def timeout_of_def press_def

declare download_loop.simps [simp del]
declare create_loop.simps [simp del]

section \<open>The trailing fragment\<close>

lemma rfind_bounds: "- 1 \<le> rfind s c"
  by (induction s) (auto simp: Let_def)

lemma rfind_none: "rfind s c = - 1 \<longleftrightarrow> c \<notin> set s"
proof (induction s)
  case Nil
  then show ?case by simp
next
  case (Cons x xs)
  with rfind_bounds [of xs c] show ?case by (auto simp: Let_def)
qed

lemma drop_rfind:
  "drop (nat (rfind s c + 1)) s = rev (takeWhile (\<lambda>x. x \<noteq> c) (rev s))"
proof (induction s)
  case Nil
  then show ?case by simp
next
  case (Cons x xs)
  show ?case
  proof (cases "c \<in> set xs")
    case True
    then have r: "rfind xs c \<noteq> - 1" by (simp add: rfind_none)
    with rfind_bounds [of xs c] have "0 \<le> rfind xs c" by arith
    then have "nat (rfind xs c + 1 + 1) = Suc (nat (rfind xs c + 1))" by arith
    with r True Cons show ?thesis
      by (simp add: Let_def takeWhile_append1)
  next
    case False
    then have r: "rfind xs c = - 1" by (simp add: rfind_none)
    from False have "takeWhile (\<lambda>x. x \<noteq> c) (rev xs @ [x]) = rev xs @ takeWhile (\<lambda>x. x \<noteq> c) [x]"
      by (intro takeWhile_append2) auto
    with r show ?thesis by (simp add: Let_def)
  qed
qed

lemma trailing_after_last_cr: "trailing m = after_last_cr m"
  using rfind_bounds [of m CR]
  by (simp add: trailing_def after_last_cr_def slice_from_def drop_rfind)

section \<open>The download wait\<close>

lemmas utf8_defs = byte_def in_range_def second_byte_def decode_def

lemma download_loop_match:
  "script s = Match i m # rest \<Longrightarrow> well_formed_utf8 m \<Longrightarrow>
   download_loop out s =
     (Ret m, s\<lparr>trace := trace s @ [Expect [serial_onie_prompt] (serial_timeout s)],
              script := rest, before := m\<rparr>)"
  by (subst download_loop.simps) (simp add: prog_defs decode_def)

lemma download_loop_fail:
  "script s = Fail m # rest \<Longrightarrow> well_formed_utf8 m \<Longrightarrow>
   download_loop out s =
     (let s1 = s\<lparr>trace := trace s @ [Expect [serial_onie_prompt] (serial_timeout s)],
              script := rest, before := m\<rparr>
      in if trailing m = out then (Exc (AssertionError Download_timeout), s1)
         else download_loop (trailing m) s1)"
  by (subst download_loop.simps) (simp add: prog_defs Let_def decode_def)

lemma download_loop_undecodable:
  "script s = r # rest \<Longrightarrow> \<not> well_formed_utf8 (received r) \<Longrightarrow>
   download_loop out s =
     (Exc UnicodeDecodeError,
      s\<lparr>trace := trace s @ [Expect [serial_onie_prompt] (serial_timeout s)],
        script := rest, before := received r\<rparr>)"
  by (subst download_loop.simps) (cases r; simp add: prog_defs decode_def)

lemma download_loop_empty:
  "script s = [] \<Longrightarrow>
   download_loop out s =
     (Waiting, s\<lparr>trace := trace s @ [Expect [serial_onie_prompt] (serial_timeout s)]\<rparr>)"
  by (subst download_loop.simps) (simp add: prog_defs)




lemma stall_wait_waiting:
  "stall_wait out rs = Waiting \<longleftrightarrow>
     list_all is_Fail rs \<and> distinct_adj (out # map (\<lambda>r. after_last_cr (received r)) rs)"
proof (induction rs arbitrary: out)
  case Nil
  then show ?case by simp
next
  case (Cons r rs)
  then show ?case by (cases r) auto
qed

section \<open>The races of the handshake\<close>

lemma setup_shell_races:
  "pre s0 = (Ret (), s) \<Longrightarrow>
   setup_shell pre post p s0 =
     pbind (seq (handshake_user p) (handshake_password p))
       (\<lambda>_. seq post (handshake_initial_command p)) s"
  by (simp add: setup_shell_def seq_def pbind_def ret_def split: prod.splits result.splits)

lemma handshake_user_password_prompt:
  "connect_user p = Some user \<Longrightarrow> connect_password p = Some password \<Longrightarrow>
   script s = Match 2 b # rest \<Longrightarrow>
   handshake_user p s =
     (Ret (), s\<lparr>trace := trace s @
                 [Expect [user_match p, initial_prompt p, password_match p] (hs_timeout p),
                  Sendline (Some password)],
              script := rest, before := b\<rparr>)"
  by (simp add: handshake_user_def prog_defs)

lemma handshake_user_no_password:
  "connect_user p = Some user \<Longrightarrow> connect_password p = None \<Longrightarrow>
   script s = Match 2 b # rest \<Longrightarrow>
   handshake_user p s =
     (Exc AttributeError,
      s\<lparr>trace := trace s @
           [Expect [user_match p, initial_prompt p, password_match p] (hs_timeout p)],
        script := rest, before := b\<rparr>)"
  by (simp add: handshake_user_def prog_defs)

lemma handshake_user_shell_prompt:
  "connect_user p = Some user \<Longrightarrow> script s = Match 1 b # rest \<Longrightarrow>
   handshake_user p s =
     (Ret (), s\<lparr>trace := trace s @
                 [Expect [user_match p, initial_prompt p, password_match p] (hs_timeout p),
                  Send enter],
              script := rest, before := b\<rparr>)"
  by (simp add: handshake_user_def prog_defs)

lemma handshake_password_match:
  "connect_password p = Some password \<Longrightarrow> script s = Match i b # rest \<Longrightarrow>
   handshake_password p s =
     (Ret (), s\<lparr>trace := trace s @
                 [Expect [password_match p, initial_prompt p] (hs_timeout p),
                  if i = 0 then Sendline (Some password) else Send enter],
              script := rest, before := b\<rparr>)"
  by (auto simp: handshake_password_def prog_defs)

lemma handshake_password_none:
  "connect_password p = None \<Longrightarrow> handshake_password p s = (Ret (), s)"
  by (simp add: handshake_password_def prog_defs)

section \<open>The loop on the startup configuration\<close>

lemma create_loop_done: "15 \<le> seconds \<Longrightarrow> create_loop seconds s = (Ret (), s)"
  by (subst create_loop.simps) (simp add: prog_defs)

lemma create_loop_no_config:
  "seconds < 15 \<Longrightarrow> script s = Match i a # Match j out # rest \<Longrightarrow>
   str_in no_saved_configuration out \<Longrightarrow>
   create_loop seconds s =
     create_loop (seconds + 1) (s\<lparr>trace := trace s @ attempt s, script := rest, before := out\<rparr>)"
  by (subst create_loop.simps) (cases s, simp add: prog_defs attempt_def)

lemma create_loop_exhausted:
  "15 - seconds = k \<Longrightarrow> no_saved_config k (script s) \<Longrightarrow>
   fst (create_loop seconds s) = Ret ()
   \<and> trace (snd (create_loop seconds s)) = trace s @ concat (replicate k (attempt s))
   \<and> script (snd (create_loop seconds s)) = drop (2 * k) (script s)
   \<and> vtysh_prompt (snd (create_loop seconds s)) = vtysh_prompt s
   \<and> vtysh_timeout (snd (create_loop seconds s)) = vtysh_timeout s
   \<and> vtysh_isalive (snd (create_loop seconds s)) = vtysh_isalive s
   \<and> image_load_status (snd (create_loop seconds s)) = image_load_status s"
proof (induction k arbitrary: seconds s)
  case 0
  then show ?case by (simp add: create_loop_done)
next
  case (Suc k)
  from Suc.prems(2) obtain i a j out rest where
    sc: "script s = Match i a # Match j out # rest"
    and out: "str_in no_saved_configuration out" and rest: "no_saved_config k rest"
    by (cases "(Suc k, script s)" rule: no_saved_config.cases) auto
  let ?s1 = "s\<lparr>trace := trace s @ attempt s, script := rest, before := out\<rparr>"
  from Suc.prems(1) have lt: "seconds < 15" and k: "15 - (seconds + 1) = k" by arith+
  have step: "create_loop seconds s = create_loop (seconds + 1) ?s1"
    using lt sc out by (rule create_loop_no_config)
  have a: "attempt ?s1 = attempt s" by (simp add: attempt_def)
  from Suc.IH [OF k, of ?s1] rest show ?case
    unfolding step by (simp add: a sc)
qed

lemma no_saved_config_append:
  "no_saved_config k rs \<Longrightarrow> no_saved_config k (rs @ rs2)"
  by (induction k rs rule: no_saved_config.induct) auto

lemma create_loop_bounded:
  "length (filter is_copy (trace (snd (create_loop seconds s))))
     \<le> length (filter is_copy (trace s)) + (15 - seconds)"
proof (induction "15 - seconds" arbitrary: seconds s)
  case 0
  then show ?case by (simp add: create_loop_done)
next
  case (Suc k)
  then have lt: "seconds < 15" and k: "k = 15 - Suc seconds" by arith+
  have IH: "length (filter is_copy (trace (snd (create_loop (Suc seconds) s1))))
      \<le> length (filter is_copy (trace s1)) + (14 - seconds)" for s1
    using Suc.hyps(1) [OF k, of s1] by simp
  show ?case
    using lt
    by (subst create_loop.simps)
       (auto simp: prog_defs split: list.splits reply.splits intro!: order_trans [OF IH])
qed


lemma create_loop_config_found:
  "seconds < 15 \<Longrightarrow> script s = Match i a # Match j out # rest \<Longrightarrow>
   \<not> str_in no_saved_configuration out \<Longrightarrow>
   create_loop seconds s =
     (Ret (), s\<lparr>trace := trace s @ butlast (attempt s), script := rest, before := out\<rparr>)"
  by (subst create_loop.simps) (cases s, simp add: prog_defs attempt_def)

lemma create_loop_early_exit:
  "no_saved_config k rs \<Longrightarrow> seconds + k < 15 \<Longrightarrow>
   script s = rs @ Match i a # Match j out # rest \<Longrightarrow> length rs = 2 * k \<Longrightarrow>
   \<not> str_in no_saved_configuration out \<Longrightarrow>
   fst (create_loop seconds s) = Ret ()
   \<and> trace (snd (create_loop seconds s)) =
       trace s @ concat (replicate k (attempt s)) @ butlast (attempt s)
   \<and> script (snd (create_loop seconds s)) = rest"
proof (induction k rs arbitrary: seconds s rule: no_saved_config.induct)
  case (1 rs)
  then show ?case by (simp add: create_loop_config_found)
next
  case (2 k i1 a1 j1 out1 rs)
  let ?s1 = "s\<lparr>trace := trace s @ attempt s, script := rs @ Match i a # Match j out # rest,
    before := out1\<rparr>"
  from "2.prems" have lt: "seconds < 15" and lt1: "(seconds + 1) + k < 15"
    and sc: "script s = Match i1 a1 # Match j1 out1 # rs @ Match i a # Match j out # rest"
    and o1: "str_in no_saved_configuration out1" and rs: "no_saved_config k rs"
    and len: "length rs = 2 * k"
    by simp_all
  have step: "create_loop seconds s = create_loop (seconds + 1) ?s1"
    using lt sc o1 by (rule create_loop_no_config)
  have a: "attempt ?s1 = attempt s" by (simp add: attempt_def)
  from "2.IH" [OF rs lt1 _ len "2.prems"(5), of ?s1] show ?case
    unfolding step by (simp add: a)
qed simp_all

lemma settle_exhausted:
  assumes "no_saved_config 15 rs" "script s = rs @ rest" "length rs = 30"
    "vtysh_isalive s (trace s @ [Sleep (sys_init_after_bootup_timeout n)]
       @ concat (replicate 15 (attempt s)))"
  shows "fst (settle n s) = Ret ()
    \<and> trace (snd (settle n s)) =
        trace s @ [Sleep (sys_init_after_bootup_timeout n)]
          @ concat (replicate 15 (attempt s)) @ [Disconnect Vtysh]
    \<and> script (snd (settle n s)) = rest"
proof -
  let ?s1 = "s\<lparr>trace := trace s @ [Sleep (sys_init_after_bootup_timeout n)]\<rparr>"
  have "no_saved_config 15 (script ?s1)"
    using assms(1,2) by (simp add: no_saved_config_append)
  from create_loop_exhausted [OF _ this, of 0] assms(2,3)
  have f: "fst (create_loop 0 ?s1) = Ret ()"
    and t: "trace (snd (create_loop 0 ?s1)) =
        trace s @ [Sleep (sys_init_after_bootup_timeout n)] @ concat (replicate 15 (attempt s))"
    and sc: "script (snd (create_loop 0 ?s1)) = rest"
    and al: "vtysh_isalive (snd (create_loop 0 ?s1)) = vtysh_isalive s"
    by (simp_all add: attempt_def)
  obtain s2 where r: "create_loop 0 ?s1 = (Ret (), s2)"
    using f by (cases "create_loop 0 ?s1") auto
  from t sc al r have "trace s2 =
        trace s @ [Sleep (sys_init_after_bootup_timeout n)] @ concat (replicate 15 (attempt s))"
    and "script s2 = rest" and "vtysh_isalive s2 = vtysh_isalive s" by simp_all
  with assms(4) show ?thesis
    by (simp add: settle_def create_startup_config_def sleep_def emit_def seq_def pbind_def r
          disconnect_def ret_def)
qed

section \<open>Sequencing\<close>




section \<open>The registry is only ever extended\<close>

lemma keepsI: "(\<And>s. image_load_status (snd (m s)) = image_load_status s) \<Longrightarrow> keeps_registry m"
  by (simp add: keeps_registry_def)

lemma keepsD: "keeps_registry m \<Longrightarrow> image_load_status (snd (m s)) = image_load_status s"
  by (simp add: keeps_registry_def)

lemma keeps_basic:
  "keeps_registry (ret a)"
  "keeps_registry (raise e)"
  "keeps_registry (emit x)"
  "keeps_registry receive"
  "keeps_registry get_response"
  "keeps_registry (set_serial_prompt p)"
  "keeps_registry (set_serial_timeout t)"
  "keeps_registry get_serial_timeout"
  "keeps_registry (set_vtysh_prompt p)"
  "keeps_registry get_vtysh_prompt"
  "keeps_registry (subprocess_call c)"
  by (auto simp: keeps_registry_def ret_def raise_def emit_def receive_def get_response_def
        set_serial_prompt_def set_serial_timeout_def get_serial_timeout_def
        set_vtysh_prompt_def get_vtysh_prompt_def subprocess_call_def
      split: list.splits reply.splits)

lemma keeps_pbind:
  "keeps_registry m \<Longrightarrow> (\<And>a. keeps_registry (f a)) \<Longrightarrow> keeps_registry (pbind m f)"
proof (rule keepsI)
  fix s
  assume m: "keeps_registry m" and f: "\<And>a. keeps_registry (f a)"
  obtain r s1 where ms: "m s = (r, s1)" by (cases "m s")
  with keepsD [OF m, of s] have s1: "image_load_status s1 = image_load_status s" by simp
  show "image_load_status (snd (pbind m f s)) = image_load_status s"
    using keepsD [OF f, of _ s1] s1 by (cases r) (simp_all add: pbind_def ms)
qed

lemma keeps_seq:
  "keeps_registry m \<Longrightarrow> keeps_registry k \<Longrightarrow> keeps_registry (seq m k)"
  by (simp add: seq_def keeps_pbind)

lemma keeps_try_except:
  "keeps_registry m \<Longrightarrow> keeps_registry h \<Longrightarrow> keeps_registry (try_except m h)"
proof (rule keepsI)
  fix s
  assume m: "keeps_registry m" and h: "keeps_registry h"
  obtain r s1 where ms: "m s = (r, s1)" by (cases "m s")
  with keepsD [OF m, of s] have s1: "image_load_status s1 = image_load_status s" by simp
  show "image_load_status (snd (try_except m h s)) = image_load_status s"
    using keepsD [OF h, of s1] s1 by (cases r) (simp_all add: try_except_def ms)
qed

lemma keeps_steps:
  "(\<And>m. m \<in> set ms \<Longrightarrow> keeps_registry m) \<Longrightarrow> keeps_registry (steps ms)"
  by (induction ms) (simp_all add: keeps_basic keeps_seq)

lemma keeps_state_dependent:
  "(\<And>s. keeps_registry (f s)) \<Longrightarrow> keeps_registry (\<lambda>s. f s s)"
  by (simp add: keeps_registry_def)

lemmas keeps_intros = keeps_basic keeps_pbind keeps_seq keeps_try_except

lemma keeps_channel:
  "keeps_registry (sleep k)"
  "keeps_registry (spawn_expect ps t)"
  "keeps_registry (spawn_sendline x)"
  "keeps_registry (send_command_matches sh text ms t nl)"
  "keeps_registry (connect sh)"
  "keeps_registry (disconnect sh)"
  by (simp_all add: sleep_def spawn_expect_def spawn_sendline_def send_command_matches_def
        connect_def keeps_intros split: option.splits)
     (simp add: keeps_registry_def disconnect_def raise_def emit_def)

lemma keeps_send_command: "keeps_registry (send_command sh text nl)"
  unfolding send_command_def by (rule keeps_state_dependent) (rule keeps_channel)

lemma keeps_shell_call: "keeps_registry (shell_call sh text)"
  by (simp add: shell_call_def keeps_intros keeps_send_command)

lemma keeps_ignore: "keeps_registry m \<Longrightarrow> keeps_registry (ignore m)"
  by (simp add: ignore_def keeps_intros)

lemma keeps_press: "keeps_registry (press text)"
  by (simp add: press_def keeps_ignore keeps_send_command)

lemma download_loop_registry:
  "script s = rs \<Longrightarrow> image_load_status (snd (download_loop out s)) = image_load_status s"
proof (induction rs arbitrary: out s)
  case Nil
  then show ?case by (simp add: download_loop_empty)
next
  case (Cons r rs)
  show ?case
  proof (cases "well_formed_utf8 (received r)")
    case False
    with Cons.prems show ?thesis by (simp add: download_loop_undecodable)
  next
    case wf: True
    show ?thesis
    proof (cases r)
      case (Match i m)
      with Cons.prems wf show ?thesis by (simp add: download_loop_match)
    next
      case (Fail m)
      with Cons.prems wf have "script s = Fail m # rs" and "well_formed_utf8 m" by simp_all
      note step = download_loop_fail [OF this, of out]
      show ?thesis
        unfolding step Let_def by (simp add: Cons.IH)
    qed
  qed
qed

lemma keeps_download_loop: "keeps_registry (download_loop out)"
  by (rule keepsI) (rule download_loop_registry [OF refl])

lemma keeps_create_loop: "keeps_registry (create_loop seconds)"
proof (induction "15 - seconds" arbitrary: seconds)
  case 0
  then show ?case by (subst create_loop.simps) (simp add: keeps_basic)
next
  case (Suc k)
  then have "k = 15 - (seconds + 1)" by arith
  from Suc.hyps(1) [OF this] show ?case
    by (subst create_loop.simps) (simp add: keeps_intros keeps_shell_call keeps_channel)
qed

lemma keeps_stages:
  "keeps_registry (reboot_switch n)"
  "keeps_registry (establish_serial n)"
  "keeps_registry erase_startup_config"
  "keeps_registry (reboot_to_rescue n)"
  "keeps_registry (download_image n ia)"
  "keeps_registry (run_installer ia)"
  "keeps_registry (reboot_to_production n)"
  "keeps_registry (settle n)"
  by (auto simp: reboot_switch_def establish_serial_def erase_startup_config_def
        reboot_to_rescue_def download_image_def run_installer_def reboot_to_production_def
        settle_def create_startup_config_def
      intro!: keeps_intros keeps_steps keeps_channel keeps_shell_call keeps_ignore keeps_press
        keeps_download_loop keeps_create_loop
      split: option.splits)

lemma keeps_burn_stages: "keeps_registry (steps (burn_stages n ia))"
  by (rule keeps_steps) (auto simp: burn_stages_def keeps_stages)

section \<open>Running the stages on a script\<close>


section \<open>Properties of the transport command builder\<close>

lemma join_option_flags:
  "xs \<noteq> [] \<Longrightarrow> '' -o '' @ join '' -o '' xs = concat (map (\<lambda>x. '' -o '' @ x) xs)"
  by (induction "'' -o ''" xs rule: join.induct) simp_all

text \<open>
  C8, as the code has it. The connect command of the SSH form is the fixed head
  \<^verbatim>\<open>ssh user@host -p port\<close>, then the identity file flag exactly when an identity file
  is configured, then one \<^verbatim>\<open>-o\<close> flag for every configured option: the option flags
  depend on the option tuple alone and are present with or without an identity file.
  The Telnet form is \<^verbatim>\<open>telnet host port\<close> and nothing else.
\<close>

theorem connect_command_forms:
  "ssh_get_connect_command p =
     ''ssh '' @ ssh_user p @ ''@'' @ ssh_hostname p @ '' -p '' @ str_int (ssh_port p)
       @ identity_flag p @ option_flags p
   \<and> identity_flag (p\<lparr>identity_file := None\<rparr>) = []
   \<and> identity_flag (p\<lparr>identity_file := Some (f # fs)\<rparr>) = '' -i '' @ f # fs
   \<and> option_flags (p\<lparr>identity_file := None\<rparr>) = option_flags p
   \<and> telnet_get_connect_command t =
       ''telnet '' @ telnet_hostname t @ '' '' @ str_int (telnet_port t)"
proof -
  have "ssh_options p \<noteq> [] \<Longrightarrow>
          '' -o '' @ join '' -o '' (ssh_options p) = option_flags p"
    unfolding option_flags_def by (rule join_option_flags)
  moreover have "ssh_options p = [] \<Longrightarrow> option_flags p = []"
    by (simp add: option_flags_def)
  ultimately show ?thesis
    by (cases "ssh_options p = []")
       (simp_all add: ssh_get_connect_command_def telnet_get_connect_command_def
          identity_flag_def truthy_def fmt_opt_def option_flags_def)
qed

text \<open>
  The claim as stated fails for the parameters with which \<^verbatim>\<open>OpenswitchNode\<close> builds its
  shells: there is no identity file and the option flags are in the command.
\<close>

theorem connect_command_options_without_identity:
  "identity_file openswitch_ssh = None
   \<and> ssh_get_connect_command openswitch_ssh =
       ''ssh root@10.0.0.5 -p 22 -o BatchMode=no -o StrictHostKeyChecking=no''
   \<and> str_in '' -o '' (ssh_get_connect_command openswitch_ssh)"
  by (simp add: openswitch_ssh_def ssh_get_connect_command_def truthy_def str_int_def)

section \<open>Stall detection in the download stage\<close>




section \<open>The first timeout of the download wait\<close>

lemma after_last_cr_empty: "after_last_cr m = [] \<longleftrightarrow> m = [] \<or> last m = CR"
  by (cases m rule: rev_cases) (auto simp: after_last_cr_def)

text \<open>
  C9. The download stage enters its wait loop with the empty string as the previous
  fragment. The text after the last carriage return is empty exactly when the output is
  empty or ends with a carriage return. When the first wait of the loop is a timeout
  with such an output (and the output decodes), the loop fails with the assertion on the
  download at once. So does the download stage of a node whose image server has a
  password: one wait has been made and no second one follows. Without a password for
  the image server the stage never reaches the loop: \<^verbatim>\<open>sendline\<close> raises
  \<^verbatim>\<open>AttributeError\<close> before the first wait.
\<close>

theorem first_timeout_empty_fragment:
  "(after_last_cr m = [] \<longleftrightarrow> m = [] \<or> last m = CR)
   \<and> (script s = Fail m # rest \<and> well_formed_utf8 m \<and> after_last_cr m = [] \<longrightarrow>
        download_loop [] s =
          (Exc (AssertionError Download_timeout),
           s\<lparr>trace := trace s @ [Expect [serial_onie_prompt] (serial_timeout s)],
             script := rest, before := m\<rparr>))
   \<and> (script s = Match i a # Match j b # Fail m # rest \<and> well_formed_utf8 m
        \<and> after_last_cr m = [] \<and> image_server_password ia = Some password \<longrightarrow>
        download_image n ia s =
          (Exc (AssertionError Download_timeout),
           s\<lparr>serial_prompt := scp_password_prompt,
             trace := trace s @
               [Command Serial
                  (''scp '' @ fmt_opt (image_server_user ia) @ ''@'' @ image_server_ip ia
                     @ '':'' @ image_path ia @ '' ./'')
                  True [host_key_prompt] (serial_timeout s),
                Command Serial ''y'' True [scp_password_prompt] (serial_timeout s),
                Sendline (Some password),
                Expect [serial_onie_prompt] (serial_timeout s)],
             script := rest, before := m\<rparr>))
   \<and> (script s = Match i a # Match j b # rest \<and> image_server_password ia = None \<longrightarrow>
        download_image n ia s =
          (Exc AttributeError,
           s\<lparr>serial_prompt := scp_password_prompt,
             trace := trace s @
               [Command Serial
                  (''scp '' @ fmt_opt (image_server_user ia) @ ''@'' @ image_server_ip ia
                     @ '':'' @ image_path ia @ '' ./'')
                  True [host_key_prompt] (serial_timeout s),
                Command Serial ''y'' True [scp_password_prompt] (serial_timeout s)],
             script := rest, before := b\<rparr>))"
proof -
  have loop: "download_loop [] s1 =
          (Exc (AssertionError Download_timeout),
           s1\<lparr>trace := trace s1 @ [Expect [serial_onie_prompt] (serial_timeout s1)],
             script := rest, before := m\<rparr>)"
    if "script s1 = Fail m # rest" "well_formed_utf8 m" "after_last_cr m = []" for s1
    using that by (simp add: download_loop_fail trailing_after_last_cr)
  show ?thesis
    by (auto simp: after_last_cr_empty loop download_image_def prog_defs)
qed

theorem first_timeout_empty_fragment_witness:
  "download_image lab_switch lab_image
     (lab_state [Match 0 ''scp'', Match 0 ''y'', Fail (''Connecting'' @ [CR]), Match 0 []]) =
     (Exc (AssertionError Download_timeout),
      (lab_state [Match 0 []])
        \<lparr>serial_prompt := scp_password_prompt,
         trace := [Command Serial ''scp build@10.0.0.1:/images/ops.onie ./'' True
                     [host_key_prompt] 30,
                   Command Serial ''y'' True [scp_password_prompt] 30,
                   Sendline (Some ''secret''),
                   Expect [serial_onie_prompt] 30],
         before := ''Connecting'' @ [CR]\<rparr>)
   \<and> download_image lab_switch (lab_image\<lparr>image_server_password := None\<rparr>)
     (lab_state [Match 0 ''scp'', Match 0 ''y'', Fail (''Connecting'' @ [CR])]) =
     (Exc AttributeError,
      (lab_state [Fail (''Connecting'' @ [CR])])
        \<lparr>serial_prompt := scp_password_prompt,
         trace := [Command Serial ''scp build@10.0.0.1:/images/ops.onie ./'' True
                     [host_key_prompt] 30,
                   Command Serial ''y'' True [scp_password_prompt] 30],
         before := ''y''\<rparr>)"
  using first_timeout_empty_fragment [where m = "''Connecting'' @ [CR]"
      and s = "lab_state [Match 0 ''scp'', Match 0 ''y'', Fail (''Connecting'' @ [CR]), Match 0 []]"
      and rest = "[Match 0 []]" and i = 0 and a = "''scp''" and j = 0 and b = "''y''"
      and n = lab_switch and ia = lab_image and password = "''secret''"]
    first_timeout_empty_fragment [where
      s = "lab_state [Match 0 ''scp'', Match 0 ''y'', Fail (''Connecting'' @ [CR])]"
      and rest = "[Fail (''Connecting'' @ [CR])]" and i = 0 and a = "''scp''" and j = 0
      and b = "''y''" and n = lab_switch
      and ia = "lab_image\<lparr>image_server_password := None\<rparr>"]
  by (simp add: lab_state_def lab_image_def fmt_opt_def after_last_cr_def CR_def utf8_defs)

section \<open>Disconnecting the serial shell\<close>

text \<open>
  C10. When the serial shell has closing commands and its channel is alive,
  \<^verbatim>\<open>disconnect\<close> raises \<^verbatim>\<open>NameError\<close> for the name \<^verbatim>\<open>spawn\<close> and leaves the state as it
  was: no closing command has been sent and the channel has not been closed.
\<close>

theorem serial_disconnect_name_error:
  "alive s \<and> closing_commands sa \<noteq> [] \<longrightarrow>
     serial_disconnect sa s = (Exc (NameError ''spawn''), s)"
  by (cases "closing_commands sa") (simp_all add: serial_disconnect_def prog_defs)

theorem serial_disconnect_name_error_witness:
  "alive (lab_state []) \<and> closing_commands lab_serial \<noteq> []
   \<and> serial_disconnect lab_serial (lab_state []) = (Exc (NameError ''spawn''), lab_state [])
   \<and> trace (snd (serial_disconnect lab_serial (lab_state []))) = []
   \<and> alive (snd (serial_disconnect lab_serial (lab_state [])))"
  using serial_disconnect_name_error [of "lab_state []" lab_serial]
  by (simp add: lab_state_def lab_serial_def)

section \<open>The reboot before the second connection attempt\<close>

text \<open>
  When the first connection attempt raises, a node without a reboot command makes the
  second attempt at once; a node with a reboot command never reaches the external call,
  because \<^verbatim>\<open>_reboot_switch\<close> raises \<^verbatim>\<open>NameError\<close> first, and makes no second attempt.
\<close>

lemma establish_serial_retry:
  "serial_attrs n = Some sa \<Longrightarrow> script s = Fail b # r # rest \<Longrightarrow>
   establish_serial n s =
     (case reboot_command n of
        Some c \<Rightarrow> (Exc (NameError ''printf''),
                   s\<lparr>serial_prompt := serial_shell_prompt sa, trace := trace s @ [Connect Serial],
                     script := r # rest, before := b\<rparr>)
      | None \<Rightarrow> ((case r of Match i x \<Rightarrow> Ret () | Fail x \<Rightarrow> Exc ChannelError),
                  s\<lparr>serial_prompt := serial_shell_prompt sa,
                    trace := trace s @ [Connect Serial, Connect Serial],
                    script := rest, before := received r\<rparr>))"
  by (cases r) (simp_all add: establish_serial_def reboot_switch_def prog_defs split: option.splits)

text \<open>
  C3. The lab switch has a reboot command, and its first connection attempt fails. The
  claim asks for one call of the reboot command and one more connection attempt. The
  code raises \<^verbatim>\<open>NameError\<close> for \<^verbatim>\<open>printf\<close>: the trace holds the first connection attempt
  and nothing else, the reply of the second attempt is never asked for, and the address
  of the switch stays in \<^verbatim>\<open>image_load_status\<close>.
\<close>

theorem reboot_command_never_called:
  "burn_image lab_switch (lab_state handshake_fails_once) =
     (Exc (NameError ''printf''),
      (lab_state [Match 0 ''login: ''])
        \<lparr>image_load_status := [''10.0.0.5''], trace := [Connect Serial],
         before := ''no prompt'', serial_prompt := ''root@.+:~# ''\<rparr>)"
  by (simp add: burn_image_def burn_stages_def lab_switch_def lab_state_def lab_image_def
        lab_serial_def handshake_fails_once_def load_image_attrs_def establish_serial_def
        reboot_switch_def serial_shell_prompt_def fmt_opt_def prog_defs)

section \<open>The password prompt in the first race\<close>

text \<open>
  C4, as the code has it. When a user is declared and the password prompt matches first
  in the race of three patterns, the engine sends the declared password at that point.
  The race of two patterns follows: the password is sent once more if the password
  prompt matches there, and a bare newline if the shell prompt matches. Then the
  post-setup hook and the initial command run. When no password is declared, the
  \<^verbatim>\<open>sendline\<close> of the first race raises \<^verbatim>\<open>AttributeError\<close>: nothing is sent and the
  handshake ends there.
\<close>

theorem password_prompt_first:
  "(pre s0 = (Ret (), s) \<and> connect_user p = Some user \<and> connect_password p = Some password
      \<and> script s = Match 2 b # Match i c # rest \<longrightarrow>
    setup_shell pre post p s0 =
      seq post (handshake_initial_command p)
        (s\<lparr>trace := trace s @
              [Expect [user_match p, initial_prompt p, password_match p] (hs_timeout p),
               Sendline (Some password),
               Expect [password_match p, initial_prompt p] (hs_timeout p),
               if i = 0 then Sendline (Some password) else Send enter],
            script := rest, before := c\<rparr>))
   \<and> (pre s0 = (Ret (), s) \<and> connect_user p = Some user \<and> connect_password p = None
      \<and> script s = Match 2 b # rest \<longrightarrow>
    setup_shell pre post p s0 =
      (Exc AttributeError,
       s\<lparr>trace := trace s @
             [Expect [user_match p, initial_prompt p, password_match p] (hs_timeout p)],
           script := rest, before := b\<rparr>))"
  by (simp add: setup_shell_races handshake_user_password_prompt handshake_user_no_password
        handshake_password_match seq_def pbind_def)

theorem password_prompt_first_witness:
  "setup_shell no_setup no_setup lab_login
     (lab_state [Match 2 ''Password:'', Match 1 ''root@switch:~# '']) =
     (Ret (), (lab_state [])
        \<lparr>trace := [Expect [''login:'', ''root@.+:~# '', ''[pP]assword:''] 30,
                   Sendline (Some ''secret''),
                   Expect [''[pP]assword:'', ''root@.+:~# ''] 30,
                   Send enter],
         before := ''root@switch:~# ''\<rparr>)
   \<and> setup_shell no_setup no_setup (lab_login\<lparr>connect_password := None\<rparr>)
     (lab_state [Match 2 ''Password:'']) =
     (Exc AttributeError, (lab_state [])
        \<lparr>trace := [Expect [''login:'', ''root@.+:~# '', ''[pP]assword:''] 30],
         before := ''Password:''\<rparr>)"
  using password_prompt_first [where pre = no_setup and post = no_setup and p = lab_login
      and ?s0.0 = "lab_state [Match 2 ''Password:'', Match 1 ''root@switch:~# '']"
      and s = "lab_state [Match 2 ''Password:'', Match 1 ''root@switch:~# '']"
      and user = "''root''" and password = "''secret''" and b = "''Password:''" and i = 1
      and c = "''root@switch:~# ''" and rest = "[]"]
    password_prompt_first [where pre = no_setup and post = no_setup
      and p = "lab_login\<lparr>connect_password := None\<rparr>"
      and ?s0.0 = "lab_state [Match 2 ''Password:'']"
      and s = "lab_state [Match 2 ''Password:'']"
      and user = "''root''" and b = "''Password:''" and rest = "[]"]
  by (simp add: no_setup_def lab_login_def lab_state_def handshake_initial_command_def prog_defs)

text \<open>
  The claim as stated fails: with the password prompt first, the trace of the first
  race alone ends with the password being sent, and the whole handshake sends it twice.
\<close>

theorem password_sent_in_first_race:
  "trace (snd (handshake_user lab_login (lab_state [Match 2 ''Password:'']))) =
     [Expect [''login:'', ''root@.+:~# '', ''[pP]assword:''] 30, Sendline (Some ''secret'')]
   \<and> trace (snd (setup_shell no_setup no_setup lab_login
        (lab_state [Match 2 ''Password:'', Match 0 ''Password:'']))) =
     [Expect [''login:'', ''root@.+:~# '', ''[pP]assword:''] 30, Sendline (Some ''secret''),
      Expect [''[pP]assword:'', ''root@.+:~# ''] 30, Sendline (Some ''secret'')]"
  by (simp add: setup_shell_def no_setup_def lab_login_def lab_state_def handshake_user_def
        handshake_password_def handshake_initial_command_def prog_defs)

section \<open>The shell prompt in the first race\<close>

text \<open>
  C5, as the code has it. When a user is declared and the initial shell prompt matches
  first in the race of three patterns, the engine sends a bare newline. Without a
  declared password the post-setup hook follows at once. With a declared password the
  race of two patterns is still performed, and its outcome decides what is sent next,
  before the post-setup hook runs.
\<close>

theorem shell_prompt_first:
  "(pre s0 = (Ret (), s) \<and> connect_user p = Some user \<and> connect_password p = None
      \<and> script s = Match 1 b # rest \<longrightarrow>
    setup_shell pre post p s0 =
      seq post (handshake_initial_command p)
        (s\<lparr>trace := trace s @
              [Expect [user_match p, initial_prompt p, password_match p] (hs_timeout p),
               Send enter],
            script := rest, before := b\<rparr>))
   \<and> (pre s0 = (Ret (), s) \<and> connect_user p = Some user \<and> connect_password p = Some password
      \<and> script s = Match 1 b # Match i c # rest \<longrightarrow>
    setup_shell pre post p s0 =
      seq post (handshake_initial_command p)
        (s\<lparr>trace := trace s @
              [Expect [user_match p, initial_prompt p, password_match p] (hs_timeout p),
               Send enter,
               Expect [password_match p, initial_prompt p] (hs_timeout p),
               if i = 0 then Sendline (Some password) else Send enter],
            script := rest, before := c\<rparr>))"
  by (simp add: setup_shell_races handshake_user_password_prompt handshake_user_shell_prompt
        handshake_password_match handshake_password_none seq_def pbind_def)

theorem shell_prompt_first_witness:
  "setup_shell no_setup no_setup (lab_login\<lparr>connect_password := None\<rparr>)
     (lab_state [Match 1 ''root@switch:~# '']) =
     (Ret (), (lab_state [])
        \<lparr>trace := [Expect [''login:'', ''root@.+:~# '', ''[pP]assword:''] 30, Send enter],
         before := ''root@switch:~# ''\<rparr>)
   \<and> setup_shell no_setup no_setup lab_login
     (lab_state [Match 1 ''root@switch:~# '', Match 1 ''root@switch:~# '']) =
     (Ret (), (lab_state [])
        \<lparr>trace := [Expect [''login:'', ''root@.+:~# '', ''[pP]assword:''] 30, Send enter,
                   Expect [''[pP]assword:'', ''root@.+:~# ''] 30, Send enter],
         before := ''root@switch:~# ''\<rparr>)"
  using shell_prompt_first [where pre = no_setup and post = no_setup
      and p = "lab_login\<lparr>connect_password := None\<rparr>"
      and ?s0.0 = "lab_state [Match 1 ''root@switch:~# '']"
      and s = "lab_state [Match 1 ''root@switch:~# '']"
      and user = "''root''" and b = "''root@switch:~# ''" and rest = "[]"]
    shell_prompt_first [where pre = no_setup and post = no_setup and p = lab_login
      and ?s0.0 = "lab_state [Match 1 ''root@switch:~# '', Match 1 ''root@switch:~# '']"
      and s = "lab_state [Match 1 ''root@switch:~# '', Match 1 ''root@switch:~# '']"
      and user = "''root''" and password = "''secret''" and b = "''root@switch:~# ''" and i = 1
      and c = "''root@switch:~# ''" and rest = "[]"]
  by (simp add: no_setup_def lab_login_def lab_state_def handshake_initial_command_def prog_defs)

text \<open>
  The claim as stated fails: with a password declared and the shell prompt first, the
  race of two patterns is in the trace, and the password is sent when the password
  prompt matches there.
\<close>

theorem second_race_after_shell_prompt:
  "connect_password lab_login = Some ''secret''
   \<and> trace (snd (setup_shell no_setup no_setup lab_login
        (lab_state [Match 1 ''root@switch:~# '', Match 0 ''Password:'']))) =
     [Expect [''login:'', ''root@.+:~# '', ''[pP]assword:''] 30, Send enter,
      Expect [''[pP]assword:'', ''root@.+:~# ''] 30, Sendline (Some ''secret'')]"
  by (simp add: setup_shell_def no_setup_def lab_login_def lab_state_def handshake_user_def
        handshake_password_def handshake_initial_command_def prog_defs)

section \<open>Creating the startup configuration\<close>

text \<open>
  C7. The loop of \<^verbatim>\<open>_create_startup_config\<close> issues the copy command and the show command
  and looks at the output of the latter. As soon as that output does not say that no
  saved configuration exists, the loop stops: after \<open>k\<close> failed attempts (fewer than
  fifteen) and one attempt that finds a configuration, it has issued \<open>k\<close> times copy,
  show and a sleep of one second, then copy and show once more, and it asks for nothing
  further. When fifteen attempts in a row report that no saved configuration exists, the
  loop returns without an exception after exactly these fifteen attempts. In no run does
  the loop issue more than fifteen copy commands. After the fifteen attempts the stage
  goes on to the disconnect and, the vtysh process being alive, returns normally: the
  exhausted bound is not an error.
\<close>

theorem startup_config_attempts:
  "(no_saved_config 15 (script s) \<longrightarrow>
      fst (create_loop 0 s) = Ret ()
      \<and> trace (snd (create_loop 0 s)) = trace s @ concat (replicate 15 (attempt s))
      \<and> script (snd (create_loop 0 s)) = drop 30 (script s))
   \<and> length (filter is_copy (trace (snd (create_loop 0 s))))
       \<le> length (filter is_copy (trace s)) + 15
   \<and> (no_saved_config k rs \<and> k < 15 \<and> length rs = 2 * k
        \<and> script s = rs @ Match i a # Match j out # rest
        \<and> \<not> str_in no_saved_configuration out \<longrightarrow>
      fst (create_loop 0 s) = Ret ()
      \<and> trace (snd (create_loop 0 s)) =
          trace s @ concat (replicate k (attempt s))
            @ [Command Vtysh ''copy running-config startup-config'' True [vtysh_prompt s]
                 (vtysh_timeout s),
               Command Vtysh ''show startup-config'' True [vtysh_prompt s] (vtysh_timeout s)]
      \<and> script (snd (create_loop 0 s)) = rest)
   \<and> (no_saved_config 15 rs \<and> script s = rs @ rest \<and> length rs = 30
        \<and> vtysh_isalive s
             (trace s @ [Sleep (sys_init_after_bootup_timeout n)]
                @ concat (replicate 15 (attempt s))) \<longrightarrow>
      fst (settle n s) = Ret ()
      \<and> trace (snd (settle n s)) =
          trace s @ [Sleep (sys_init_after_bootup_timeout n)]
            @ concat (replicate 15 (attempt s)) @ [Disconnect Vtysh]
      \<and> script (snd (settle n s)) = rest)"
  using create_loop_exhausted [of 0 15 s] create_loop_bounded [of 0 s]
    create_loop_early_exit [of k rs 0 s i a j out rest]
    settle_exhausted [of rs s rest n]
  by (simp add: attempt_def)

theorem startup_config_attempts_witness:
  "no_saved_config 15 still_no_config
   \<and> fst (settle lab_switch (lab_state still_no_config)) = Ret ()
   \<and> trace (snd (settle lab_switch (lab_state still_no_config))) =
       [Sleep 60] @ concat (replicate 15 (attempt (lab_state []))) @ [Disconnect Vtysh]
   \<and> script (snd (settle lab_switch (lab_state still_no_config))) = []
   \<and> fst (create_loop 0 (lab_state found_at_second_attempt)) = Ret ()
   \<and> trace (snd (create_loop 0 (lab_state found_at_second_attempt))) =
       attempt (lab_state []) @ butlast (attempt (lab_state []))
   \<and> script (snd (create_loop 0 (lab_state found_at_second_attempt))) =
       [Match 0 ''never read'']"
proof -
  have n: "no_saved_config 15 still_no_config"
    by (simp add: still_no_config_def eval_nat_numeral no_saved_configuration_def)
  have s: "script (lab_state still_no_config) = still_no_config @ []"
    by (simp add: lab_state_def)
  have l: "length still_no_config = 30"
    by (simp add: still_no_config_def eval_nat_numeral)
  have al: "vtysh_isalive (lab_state still_no_config) t" for t
    by (simp add: lab_state_def)
  have n1: "no_saved_config 1 (take 2 found_at_second_attempt)"
    by (simp add: found_at_second_attempt_def no_saved_configuration_def)
  have s1: "script (lab_state found_at_second_attempt) =
      take 2 found_at_second_attempt @ Match 0 [] # Match 0 ''hostname switch''
        # [Match 0 ''never read'']"
    by (simp add: lab_state_def found_at_second_attempt_def)
  have m1: "\<not> str_in no_saved_configuration ''hostname switch''"
    by (simp add: no_saved_configuration_def)
  from startup_config_attempts [where rs = still_no_config and s = "lab_state still_no_config"
      and rest = "[]" and n = lab_switch] n s l al
  have exhausted: "fst (settle lab_switch (lab_state still_no_config)) = Ret ()
   \<and> trace (snd (settle lab_switch (lab_state still_no_config))) =
       [Sleep 60] @ concat (replicate 15 (attempt (lab_state []))) @ [Disconnect Vtysh]
   \<and> script (snd (settle lab_switch (lab_state still_no_config))) = []"
    by (simp add: lab_state_def lab_switch_def attempt_def)
  have l1: "length (take 2 found_at_second_attempt) = 2 * 1"
    by (simp add: found_at_second_attempt_def)
  have k1: "(1::nat) < 15" by simp
  from startup_config_attempts [where rs = "take 2 found_at_second_attempt" and k = 1
      and s = "lab_state found_at_second_attempt" and i = 0 and a = "[]" and j = 0
      and out = "''hostname switch''" and rest = "[Match 0 ''never read'']"] n1 k1 l1 s1 m1
  have "fst (create_loop 0 (lab_state found_at_second_attempt)) = Ret ()
   \<and> trace (snd (create_loop 0 (lab_state found_at_second_attempt))) =
       trace (lab_state found_at_second_attempt)
         @ concat (replicate 1 (attempt (lab_state found_at_second_attempt)))
         @ [Command Vtysh ''copy running-config startup-config'' True
              [vtysh_prompt (lab_state found_at_second_attempt)]
              (vtysh_timeout (lab_state found_at_second_attempt)),
            Command Vtysh ''show startup-config'' True
              [vtysh_prompt (lab_state found_at_second_attempt)]
              (vtysh_timeout (lab_state found_at_second_attempt))]
   \<and> script (snd (create_loop 0 (lab_state found_at_second_attempt))) =
       [Match 0 ''never read'']"
    by blast
  moreover have "trace (lab_state found_at_second_attempt) = []"
    and "attempt (lab_state found_at_second_attempt) = attempt (lab_state [])"
    and "vtysh_prompt (lab_state found_at_second_attempt) = ''switch# ''"
    and "vtysh_timeout (lab_state found_at_second_attempt) = 30"
    by (simp_all add: lab_state_def attempt_def)
  ultimately
  have found: "fst (create_loop 0 (lab_state found_at_second_attempt)) = Ret ()
   \<and> trace (snd (create_loop 0 (lab_state found_at_second_attempt))) =
       attempt (lab_state []) @ butlast (attempt (lab_state []))
   \<and> script (snd (create_loop 0 (lab_state found_at_second_attempt))) =
       [Match 0 ''never read'']"
    by (simp add: attempt_def lab_state_def)
  from n exhausted found show ?thesis by simp
qed

section \<open>Burning at most once\<close>

text \<open>
  C2. \<^verbatim>\<open>_burn_image\<close> looks at \<^verbatim>\<open>image_load_status\<close> before it does anything else: when
  the address of the node is in the list (or the node has no image attributes) it
  returns at once and the state, trace included, is untouched. Otherwise the address is
  appended before the first stage, and whatever the stages do (succeed, raise at any
  point, or keep waiting) the list at the end is the list at the start with the address
  appended: no entry is ever removed. So after a burn of a node with image attributes,
  however it ended, a burn for any node object with the same address does nothing,
  whatever the channels would answer.
\<close>

theorem burn_once:
  "(image_attrs n = None \<or> IP n \<in> set (image_load_status s) \<longrightarrow>
      burn_image n s = (Ret (), s))
   \<and> (image_attrs n \<noteq> None \<and> IP n \<notin> set (image_load_status s) \<longrightarrow>
      image_load_status (snd (burn_image n s)) = image_load_status s @ [IP n])
   \<and> set (image_load_status s) \<subseteq> set (image_load_status (snd (burn_image n s)))
   \<and> (image_attrs n \<noteq> None \<and> IP n2 = IP n \<longrightarrow>
      burn_image n2 ((snd (burn_image n s))\<lparr>script := rs\<rparr>) =
        (Ret (), (snd (burn_image n s))\<lparr>script := rs\<rparr>))"
proof -
  have skip: "burn_image m t = (Ret (), t)"
    if "image_attrs m = None \<or> IP m \<in> set (image_load_status t)" for m t
    using that by (auto simp: burn_image_def split: option.splits)
  have mark: "image_load_status (snd (burn_image n s)) = image_load_status s @ [IP n]"
    if "image_attrs n \<noteq> None" "IP n \<notin> set (image_load_status s)"
    using that by (auto simp: burn_image_def keepsD [OF keeps_burn_stages])
  have marked: "IP n \<in> set (image_load_status (snd (burn_image n s)))"
    if "image_attrs n \<noteq> None"
  proof (cases "IP n \<in> set (image_load_status s)")
    case True
    then show ?thesis by (simp add: skip)
  next
    case False
    with that show ?thesis by (simp add: mark)
  qed
  have grows: "set (image_load_status s) \<subseteq> set (image_load_status (snd (burn_image n s)))"
  proof (cases "image_attrs n = None \<or> IP n \<in> set (image_load_status s)")
    case True
    then show ?thesis by (simp add: skip)
  next
    case False
    then show ?thesis by (auto simp: mark)
  qed
  show ?thesis
    using skip [of n s] mark grows marked
      skip [of n2 "(snd (burn_image n s))\<lparr>script := rs\<rparr>"]
    by simp
qed

theorem burn_once_witness:
  "image_load_status (snd (burn_image lab_switch (lab_state handshake_fails_once))) =
     [''10.0.0.5'']
   \<and> fst (burn_image lab_switch (lab_state handshake_fails_once)) = Exc (NameError ''printf'')
   \<and> burn_image (lab_switch\<lparr>node_identifier := ''sw1-again''\<rparr>)
       ((snd (burn_image lab_switch (lab_state handshake_fails_once)))
          \<lparr>script := installer_reports_error\<rparr>) =
     (Ret (), (snd (burn_image lab_switch (lab_state handshake_fails_once)))
          \<lparr>script := installer_reports_error\<rparr>)"
  using burn_once [where n = lab_switch and s = "lab_state handshake_fails_once"
      and ?n2.0 = "lab_switch\<lparr>node_identifier := ''sw1-again''\<rparr>"
      and rs = installer_reports_error]
  by (simp add: burn_image_def burn_stages_def lab_switch_def lab_state_def lab_image_def
        lab_serial_def handshake_fails_once_def load_image_attrs_def establish_serial_def
        reboot_switch_def serial_shell_prompt_def fmt_opt_def prog_defs)

section \<open>The installer without its success marker\<close>




end
